theory Spec2Isabelle
  imports Main "HOL-Library.Word"
begin

section \<open>Configuration (package config)\<close>

text \<open>
  The package \<open>config\<close> exists in two variants. Both declare the same five sentinel
  errors; a Go \<open>error\<close> result is modelled as an option, \<open>None\<close> being \<open>nil\<close>.
\<close>

datatype config_error =
    ErrEndpointRequired
  | ErrRegionRequired
  | ErrBucketRequired
  | ErrAccessKeyRequired
  | ErrSecretKeyRequired

subsection \<open>The variant with a disabled flag (src/pkg/config/config.go, lines 17-104)\<close>

definition DefaultDisabled :: bool where
  "DefaultDisabled = False"

definition DefaultSecure :: bool where
  "DefaultSecure = True"

definition DefaultRegion :: string where
  "DefaultRegion = ''auto''"

record Config =
  Disabled :: bool
  Endpoint :: string
  Secure :: bool
  Region :: string
  Bucket :: string
  AccessKey :: string
  SecretKey :: string

text \<open>
  \<open>New\<close> fills three fields of the struct literal; every other field keeps Go's zero
  value, the empty string.
\<close>

definition Config_New :: Config where
  "Config_New =
     \<lparr>Config.Disabled = DefaultDisabled,
      Config.Endpoint = [],
      Config.Secure = DefaultSecure,
      Config.Region = DefaultRegion,
      Config.Bucket = [],
      Config.AccessKey = [],
      Config.SecretKey = []\<rparr>"

definition Config_Validate :: "Config \<Rightarrow> config_error option" where
  "Config_Validate c =
     (if \<not> Config.Disabled c then
        (if Config.Endpoint c = [] then Some ErrEndpointRequired
         else if Config.Region c = [] then Some ErrRegionRequired
         else if Config.Bucket c = [] then Some ErrBucketRequired
         else if Config.AccessKey c = [] then Some ErrAccessKeyRequired
         else if Config.SecretKey c = [] then Some ErrSecretKeyRequired
         else None)
      else None)"

subsection \<open>The variant without a disabled flag (src/pkg/config/config.go, lines 105-226)\<close>

text \<open>This variant declares \<open>DefaultSecure\<close> and \<open>DefaultRegion\<close> with the same values.\<close>

record YamlConfig =
  Endpoint :: string
  Secure :: bool
  Region :: string
  Bucket :: string
  AccessKey :: string
  SecretKey :: string

definition YamlConfig_New :: YamlConfig where
  "YamlConfig_New =
     \<lparr>YamlConfig.Endpoint = [],
      YamlConfig.Secure = DefaultSecure,
      YamlConfig.Region = DefaultRegion,
      YamlConfig.Bucket = [],
      YamlConfig.AccessKey = [],
      YamlConfig.SecretKey = []\<rparr>"

definition YamlConfig_Validate :: "YamlConfig \<Rightarrow> config_error option" where
  "YamlConfig_Validate c =
     (if YamlConfig.Endpoint c = [] then Some ErrEndpointRequired
      else if YamlConfig.Region c = [] then Some ErrRegionRequired
      else if YamlConfig.Bucket c = [] then Some ErrBucketRequired
      else if YamlConfig.AccessKey c = [] then Some ErrAccessKeyRequired
      else if YamlConfig.SecretKey c = [] then Some ErrSecretKeyRequired
      else None)"

subsection \<open>The validation rule as the specification words it\<close>

text \<open>
  The specification describes validation as a scan over the required fields in a fixed
  order that stops at the first empty one. \<open>first_missing\<close> is that scan over a list of
  (field value, error) pairs; \<open>required_in_order\<close> lists the five fields in the order
  endpoint, region, bucket, access key, secret key.
\<close>

fun first_missing :: "(string \<times> config_error) list \<Rightarrow> config_error option" where
  "first_missing [] = None"
| "first_missing ((v, e) # rest) = (if v = [] then Some e else first_missing rest)"

definition required_in_order ::
  "string \<Rightarrow> string \<Rightarrow> string \<Rightarrow> string \<Rightarrow> string \<Rightarrow> (string \<times> config_error) list" where
  "required_in_order endpoint region bucket access_key secret_key =
     [(endpoint, ErrEndpointRequired),
      (region, ErrRegionRequired),
      (bucket, ErrBucketRequired),
      (access_key, ErrAccessKeyRequired),
      (secret_key, ErrSecretKeyRequired)]"

section \<open>String formatting\<close>

text \<open>
  \<open>prefixedKey\<close> builds its result with \<open>fmt.Sprintf\<close>. \<open>Sprintf\<close> models that library
  function on string operands, for formats made of literal bytes, the directive \<open>%%\<close>
  and one-byte verbs: the verbs \<open>s\<close> and \<open>v\<close> print the operand as it is, a verb with
  no operand left prints \<open>%!verb(MISSING)\<close>, a lone \<open>%\<close> at the end of the format prints
  \<open>%!(NOVERB)\<close>, and operands left over are listed in \<open>%!(EXTRA ...)\<close>. Any other
  byte after \<open>%\<close> is rendered as a verb that does not apply to strings; flags, width,
  precision and the verbs \<open>q\<close>, \<open>x\<close>, \<open>X\<close>, \<open>T\<close> are not modelled, since no format of
  this repository uses them.
\<close>

fun extra_operands :: "string list \<Rightarrow> string" where
  "extra_operands [] = []"
| "extra_operands [a] = ''string='' @ a"
| "extra_operands (a # b # rest) = ''string='' @ a @ '', '' @ extra_operands (b # rest)"

fun Sprintf :: "string \<Rightarrow> string list \<Rightarrow> string" where
  "Sprintf [] a = (if a = [] then [] else ''%!(EXTRA '' @ extra_operands a @ '')'')"
| "Sprintf [c] a =
     (if c = CHR ''%'' then ''%!(NOVERB)'' @ Sprintf [] a else c # Sprintf [] a)"
| "Sprintf (c # v # f) a =
     (if c \<noteq> CHR ''%'' then c # Sprintf (v # f) a
      else if v = CHR ''%'' then CHR ''%'' # Sprintf f a
      else (case a of
              [] \<Rightarrow> ''%!'' @ [v] @ ''(MISSING)'' @ Sprintf f []
            | x # rest \<Rightarrow>
                (if v = CHR ''s'' \<or> v = CHR ''v'' then x
                 else ''%!'' @ [v] @ ''(string='' @ x @ '')'') @ Sprintf f rest))"

text \<open>
  \<open>prefixedKey\<close> is declared with the same body in src/s3.go (line 147) and in
  src/unnamed/part_000 (line 134).
\<close>

definition prefixedKey :: "string \<Rightarrow> string \<Rightarrow> string" where
  "prefixedKey prefix key = Sprintf ''%s/%s'' [prefix, key]"

section \<open>The backend library and the logger\<close>

text \<open>
  The minio client library and zerolog are outside the repository. The model records
  what the wrapper hands to them. Go's \<open>int64\<close> and \<open>time.Duration\<close> are 64-bit words.
  A \<open>context.Context\<close> argument has the opaque type \<open>'c\<close>, an \<open>io.Reader\<close> the opaque type
  \<open>'d\<close>; both are forwarded untouched.
\<close>

type_synonym int64 = "64 word"
type_synonym Duration = "64 word"

text \<open>
  The option structs of the library. The wrapper only ever writes the zero-valued literals
  \<open>MakeBucketOptions{}\<close>, \<open>GetObjectOptions{}\<close> and \<open>RemoveObjectOptions{}\<close>; of
  \<open>PutObjectOptions\<close> it sets \<open>ContentType\<close> and of \<open>ListObjectsOptions\<close> it sets
  \<open>Prefix\<close>, every other field keeping its zero value.
\<close>

datatype minio_MakeBucketOptions = MakeBucketOptions_zero
datatype minio_GetObjectOptions = GetObjectOptions_zero
datatype minio_RemoveObjectOptions = RemoveObjectOptions_zero

record minio_PutObjectOptions =
  ContentType :: string

record minio_ListObjectsOptions =
  Prefix :: string

text \<open>\<open>credentials.NewStaticV4(id, secret, token)\<close>.\<close>

datatype credentials = NewStaticV4 string string string

record minio_Options =
  Creds :: credentials
  Secure :: bool
  Region :: string

text \<open>
  One constructor for each method of \<open>*minio.Client\<close> that the wrapper calls, with the
  arguments in the library's order. \<open>PresignedGetObject\<close> is always called with
  \<open>nil\<close> request parameters, which are left out.
\<close>

datatype ('c, 'd) minio_call =
    Minio_PresignedGetObject 'c string string Duration
  | Minio_GetObject 'c string string minio_GetObjectOptions
  | Minio_PutObject 'c string string 'd int64 minio_PutObjectOptions
  | Minio_RemoveObject 'c string string minio_RemoveObjectOptions
  | Minio_MakeBucket 'c string minio_MakeBucketOptions
  | Minio_ListObjects 'c string minio_ListObjectsOptions
  | Minio_RemoveBucket 'c string

text \<open>
  A client handle answers each call with a response of the opaque type \<open>'r\<close> (a URL, a
  stream, upload metadata, a channel, an error). \<open>minio.New\<close> is a parameter of the
  model: given the endpoint and the options it returns a handle or an error of the
  opaque type \<open>'x\<close>.
\<close>

type_synonym ('c, 'd, 'r) minio_Client = "('c, 'd) minio_call \<Rightarrow> 'r"

type_synonym ('c, 'd, 'r, 'x) minio_New =
  "string \<Rightarrow> minio_Options \<Rightarrow> 'x + ('c, 'd, 'r) minio_Client"

text \<open>
  A zerolog logger is the list of context fields bound to it; \<open>With_Str\<close> is
  \<open>logger.With().Str(key, value).Logger()\<close>.
\<close>

type_synonym zerolog_Logger = "(string \<times> string) list"

definition With_Str :: "zerolog_Logger \<Rightarrow> string \<Rightarrow> string \<Rightarrow> zerolog_Logger" where
  "With_Str logger key val = logger @ [(key, val)]"

datatype level = DebugLevel | WarnLevel

datatype operand = Str string | Dur Duration

text \<open>
  What a call of the wrapper does to the outside, in order: a log event (the logger, the
  level and the operands of the message; the message template is not recorded), the
  construction of a backend session, a call on the backend session.
\<close>

datatype ('c, 'd) event =
    Log zerolog_Logger level "operand list"
  | Session string minio_Options
  | Backend "('c, 'd) minio_call"

fun backend_calls :: "('c, 'd) event list \<Rightarrow> ('c, 'd) minio_call list" where
  "backend_calls [] = []"
| "backend_calls (Backend c # evs) = c # backend_calls evs"
| "backend_calls (_ # evs) = backend_calls evs"

fun sessions :: "('c, 'd) event list \<Rightarrow> (string \<times> minio_Options) list" where
  "sessions [] = []"
| "sessions (Session endpoint opts # evs) = (endpoint, opts) # sessions evs"
| "sessions (_ # evs) = sessions evs"

text \<open>
  Construction errors. \<open>ErrDisabled\<close> is the package variable of src/s3.go;
  \<open>FailedToCreate err\<close> is \<open>fmt.Errorf("failed to create s3 client: %w", err)\<close>.
\<close>

datatype 'x error = ErrDisabled | FailedToCreate 'x

text \<open>
  The lifecycle fields. The field is named \<open>ctx\<close> in src/s3.go and \<open>context\<close> in the
  two other variants, where the model calls it \<open>ctxt\<close>. The context made by
  \<open>context.WithCancel(context.Background())\<close> is live until its cancel function runs. A \<open>sync.WaitGroup\<close> is its counter, zero in
  the zero value; \<open>Wait\<close> returns when the counter is zero and blocks otherwise.
\<close>

datatype lifecycle = Live | Cancelled

definition WithCancel_Background :: lifecycle where
  "WithCancel_Background = Live"

definition cancel :: "lifecycle \<Rightarrow> lifecycle" where
  "cancel lc = Cancelled"

definition WaitGroup_Wait_returns :: "nat \<Rightarrow> bool" where
  "WaitGroup_Wait_returns counter = (counter = 0)"

section \<open>The client bound to one bucket, with a disabled flag (src/s3.go)\<close>

record S3_Options =
  LogName :: string
  Disabled :: bool
  Endpoint :: string
  Secure :: bool
  Region :: string
  Bucket :: string
  AccessKey :: string
  SecretKey :: string

record ('c, 'd, 'r) S3 =
  logger :: zerolog_Logger
  options :: S3_Options
  client :: "('c, 'd, 'r) minio_Client"
  makeOpts :: minio_MakeBucketOptions
  getOpts :: minio_GetObjectOptions
  removeOpts :: minio_RemoveObjectOptions
  ctx :: lifecycle
  wg :: nat

definition S3_New ::
  "('c, 'd, 'r, 'x) minio_New \<Rightarrow> S3_Options \<Rightarrow> zerolog_Logger \<Rightarrow>
     ('c, 'd) event list \<times> ('x error + ('c, 'd, 'r) S3)" where
  "S3_New minio_New opts lg =
     (let l = With_Str lg (S3_Options.LogName opts) ''S3'' in
      if S3_Options.Disabled opts then ([Log l WarnLevel []], Inl ErrDisabled)
      else
        (let mo = \<lparr>minio_Options.Creds =
                      NewStaticV4 (S3_Options.AccessKey opts) (S3_Options.SecretKey opts) [],
                    minio_Options.Secure = S3_Options.Secure opts,
                    minio_Options.Region = S3_Options.Region opts\<rparr>;
            evs = [Log l DebugLevel
                     [Str (S3_Options.Endpoint opts), Str (S3_Options.Bucket opts)],
                   Session (S3_Options.Endpoint opts) mo]
        in (case minio_New (S3_Options.Endpoint opts) mo of
              Inl err \<Rightarrow> (evs, Inl (FailedToCreate err))
            | Inr cl \<Rightarrow>
                (evs,
                 Inr \<lparr>S3.logger = l,
                      S3.options = opts,
                      S3.client = cl,
                      S3.makeOpts = MakeBucketOptions_zero,
                      S3.getOpts = GetObjectOptions_zero,
                      S3.removeOpts = RemoveObjectOptions_zero,
                      S3.ctx = WithCancel_Background,
                      S3.wg = 0\<rparr>))))"

definition S3_PresignedGetObject ::
  "('c, 'd, 'r) S3 \<Rightarrow> 'c \<Rightarrow> string \<Rightarrow> string \<Rightarrow> Duration \<Rightarrow> ('c, 'd) event list \<times> 'r" where
  "S3_PresignedGetObject e cx prefix key expires =
     (let objName = prefixedKey prefix key;
          call = Minio_PresignedGetObject cx (S3_Options.Bucket (S3.options e)) objName expires
      in ([Log (S3.logger e) DebugLevel
            [Str objName, Str (S3_Options.Bucket (S3.options e)), Dur expires],
           Backend call],
          S3.client e call))"

definition S3_GetObject ::
  "('c, 'd, 'r) S3 \<Rightarrow> 'c \<Rightarrow> string \<Rightarrow> string \<Rightarrow> ('c, 'd) event list \<times> 'r" where
  "S3_GetObject e cx prefix key =
     (let objName = prefixedKey prefix key;
          call = Minio_GetObject cx (S3_Options.Bucket (S3.options e)) objName (S3.getOpts e)
      in ([Log (S3.logger e) DebugLevel
            [Str objName, Str (S3_Options.Bucket (S3.options e))],
           Backend call],
          S3.client e call))"

definition S3_PutObject ::
  "('c, 'd, 'r) S3 \<Rightarrow> 'c \<Rightarrow> string \<Rightarrow> string \<Rightarrow> 'd \<Rightarrow> int64 \<Rightarrow> string \<Rightarrow>
     ('c, 'd) event list \<times> 'r" where
  "S3_PutObject e cx prefix key reader objectSize contentType =
     (let objName = prefixedKey prefix key;
          call = Minio_PutObject cx (S3_Options.Bucket (S3.options e)) objName reader objectSize
                   \<lparr>minio_PutObjectOptions.ContentType = contentType\<rparr>
      in ([Log (S3.logger e) DebugLevel
            [Str objName, Str (S3_Options.Bucket (S3.options e))],
           Backend call],
          S3.client e call))"

definition S3_DeleteObject ::
  "('c, 'd, 'r) S3 \<Rightarrow> 'c \<Rightarrow> string \<Rightarrow> string \<Rightarrow> ('c, 'd) event list \<times> 'r" where
  "S3_DeleteObject e cx prefix key =
     (let objName = prefixedKey prefix key;
          call =
            Minio_RemoveObject cx (S3_Options.Bucket (S3.options e)) objName (S3.removeOpts e)
      in ([Log (S3.logger e) DebugLevel
            [Str objName, Str (S3_Options.Bucket (S3.options e))],
           Backend call],
          S3.client e call))"

definition S3_MakeBucket ::
  "('c, 'd, 'r) S3 \<Rightarrow> 'c \<Rightarrow> string \<Rightarrow> ('c, 'd) event list \<times> 'r" where
  "S3_MakeBucket e cx bucket =
     (let call = Minio_MakeBucket cx bucket (S3.makeOpts e)
      in ([Log (S3.logger e) DebugLevel
            [Str bucket],
           Backend call],
          S3.client e call))"

definition S3_ListObjects ::
  "('c, 'd, 'r) S3 \<Rightarrow> 'c \<Rightarrow> string \<Rightarrow> ('c, 'd) event list \<times> 'r" where
  "S3_ListObjects e cx prefix =
     (let call = Minio_ListObjects cx (S3_Options.Bucket (S3.options e))
                   \<lparr>minio_ListObjectsOptions.Prefix = prefixedKey prefix []\<rparr>
      in ([Log (S3.logger e) DebugLevel
            [Str prefix, Str (S3_Options.Bucket (S3.options e))],
           Backend call],
          S3.client e call))"

definition S3_RemoveBucket ::
  "('c, 'd, 'r) S3 \<Rightarrow> 'c \<Rightarrow> string \<Rightarrow> ('c, 'd) event list \<times> 'r" where
  "S3_RemoveBucket e cx bucket =
     (let call = Minio_RemoveBucket cx bucket
      in ([Log (S3.logger e) DebugLevel
            [Str bucket],
           Backend call],
          S3.client e call))"

text \<open>
  \<open>Close\<close> logs, cancels the lifecycle context, fixes its result \<open>nil\<close> and runs the
  deferred \<open>wg.Wait()\<close> before it returns to the caller. The result is \<open>None\<close> when
  the wait blocks and the call never returns; otherwise it is the events, the client
  after the call and the returned error (\<open>None\<close> for \<open>nil\<close>).
\<close>

definition S3_Close ::
  "('c, 'd, 'r) S3 \<Rightarrow>
     (('c, 'd) event list \<times> ('c, 'd, 'r) S3 \<times> 'x error option) option" where
  "S3_Close e =
     (let evs = [Log (S3.logger e) DebugLevel []];
          e' = e\<lparr>S3.ctx := cancel (S3.ctx e)\<rparr>
      in if WaitGroup_Wait_returns (S3.wg e') then Some (evs, e', None) else None)"

section \<open>The client bound to one bucket, without a disabled flag (src/unnamed/part_000)\<close>

record BucketClient_Options =
  LogName :: string
  Endpoint :: string
  Secure :: bool
  Region :: string
  Bucket :: string
  AccessKey :: string
  SecretKey :: string

record ('c, 'd, 'r) BucketClient =
  logger :: zerolog_Logger
  options :: BucketClient_Options
  client :: "('c, 'd, 'r) minio_Client"
  makeOpts :: minio_MakeBucketOptions
  getOpts :: minio_GetObjectOptions
  removeOpts :: minio_RemoveObjectOptions
  ctxt :: lifecycle
  wg :: nat

definition BucketClient_New ::
  "('c, 'd, 'r, 'x) minio_New \<Rightarrow> BucketClient_Options \<Rightarrow> zerolog_Logger \<Rightarrow>
     ('c, 'd) event list \<times> ('x error + ('c, 'd, 'r) BucketClient)" where
  "BucketClient_New minio_New opts lg =
     (let l = With_Str lg (BucketClient_Options.LogName opts) ''S3'' in
        (let mo = \<lparr>minio_Options.Creds =
                      NewStaticV4 (BucketClient_Options.AccessKey opts) (BucketClient_Options.SecretKey opts) [],
                    minio_Options.Secure = BucketClient_Options.Secure opts,
                    minio_Options.Region = BucketClient_Options.Region opts\<rparr>;
            evs = [Log l DebugLevel
                     [Str (BucketClient_Options.Endpoint opts), Str (BucketClient_Options.Bucket opts)],
                   Session (BucketClient_Options.Endpoint opts) mo]
        in (case minio_New (BucketClient_Options.Endpoint opts) mo of
              Inl err \<Rightarrow> (evs, Inl (FailedToCreate err))
            | Inr cl \<Rightarrow>
                (evs,
                 Inr \<lparr>BucketClient.logger = l,
                      BucketClient.options = opts,
                      BucketClient.client = cl,
                      BucketClient.makeOpts = MakeBucketOptions_zero,
                      BucketClient.getOpts = GetObjectOptions_zero,
                      BucketClient.removeOpts = RemoveObjectOptions_zero,
                      BucketClient.ctxt = WithCancel_Background,
                      BucketClient.wg = 0\<rparr>))))"

definition BucketClient_PresignedGetObject ::
  "('c, 'd, 'r) BucketClient \<Rightarrow> 'c \<Rightarrow> string \<Rightarrow> string \<Rightarrow> Duration \<Rightarrow> ('c, 'd) event list \<times> 'r" where
  "BucketClient_PresignedGetObject e cx prefix key expires =
     (let objName = prefixedKey prefix key;
          call =
            Minio_PresignedGetObject cx (BucketClient_Options.Bucket (BucketClient.options e))
              objName expires
      in ([Log (BucketClient.logger e) DebugLevel
            [Str objName, Str (BucketClient_Options.Bucket (BucketClient.options e)), Dur expires],
           Backend call],
          BucketClient.client e call))"

definition BucketClient_GetObject ::
  "('c, 'd, 'r) BucketClient \<Rightarrow> 'c \<Rightarrow> string \<Rightarrow> string \<Rightarrow> ('c, 'd) event list \<times> 'r" where
  "BucketClient_GetObject e cx prefix key =
     (let objName = prefixedKey prefix key;
          call =
            Minio_GetObject cx (BucketClient_Options.Bucket (BucketClient.options e)) objName
              (BucketClient.getOpts e)
      in ([Log (BucketClient.logger e) DebugLevel
            [Str objName, Str (BucketClient_Options.Bucket (BucketClient.options e))],
           Backend call],
          BucketClient.client e call))"

definition BucketClient_PutObject ::
  "('c, 'd, 'r) BucketClient \<Rightarrow> 'c \<Rightarrow> string \<Rightarrow> string \<Rightarrow> 'd \<Rightarrow> int64 \<Rightarrow> string \<Rightarrow>
     ('c, 'd) event list \<times> 'r" where
  "BucketClient_PutObject e cx prefix key reader objectSize contentType =
     (let objName = prefixedKey prefix key;
          call =
            Minio_PutObject cx (BucketClient_Options.Bucket (BucketClient.options e)) objName
              reader objectSize
                   \<lparr>minio_PutObjectOptions.ContentType = contentType\<rparr>
      in ([Log (BucketClient.logger e) DebugLevel
            [Str objName, Str (BucketClient_Options.Bucket (BucketClient.options e))],
           Backend call],
          BucketClient.client e call))"

definition BucketClient_DeleteObject ::
  "('c, 'd, 'r) BucketClient \<Rightarrow> 'c \<Rightarrow> string \<Rightarrow> string \<Rightarrow> ('c, 'd) event list \<times> 'r" where
  "BucketClient_DeleteObject e cx prefix key =
     (let objName = prefixedKey prefix key;
          call =
            Minio_RemoveObject cx (BucketClient_Options.Bucket (BucketClient.options e)) objName
              (BucketClient.removeOpts e)
      in ([Log (BucketClient.logger e) DebugLevel
            [Str objName, Str (BucketClient_Options.Bucket (BucketClient.options e))],
           Backend call],
          BucketClient.client e call))"

definition BucketClient_MakeBucket ::
  "('c, 'd, 'r) BucketClient \<Rightarrow> 'c \<Rightarrow> string \<Rightarrow> ('c, 'd) event list \<times> 'r" where
  "BucketClient_MakeBucket e cx bucket =
     (let call = Minio_MakeBucket cx bucket (BucketClient.makeOpts e)
      in ([Log (BucketClient.logger e) DebugLevel
            [Str bucket],
           Backend call],
          BucketClient.client e call))"

definition BucketClient_ListObjects ::
  "('c, 'd, 'r) BucketClient \<Rightarrow> 'c \<Rightarrow> string \<Rightarrow> ('c, 'd) event list \<times> 'r" where
  "BucketClient_ListObjects e cx prefix =
     (let call = Minio_ListObjects cx (BucketClient_Options.Bucket (BucketClient.options e))
                   \<lparr>minio_ListObjectsOptions.Prefix = prefixedKey prefix []\<rparr>
      in ([Log (BucketClient.logger e) DebugLevel
            [Str prefix, Str (BucketClient_Options.Bucket (BucketClient.options e))],
           Backend call],
          BucketClient.client e call))"

definition BucketClient_RemoveBucket ::
  "('c, 'd, 'r) BucketClient \<Rightarrow> 'c \<Rightarrow> string \<Rightarrow> ('c, 'd) event list \<times> 'r" where
  "BucketClient_RemoveBucket e cx bucket =
     (let call = Minio_RemoveBucket cx bucket
      in ([Log (BucketClient.logger e) DebugLevel
            [Str bucket],
           Backend call],
          BucketClient.client e call))"

text \<open>
  \<open>Close\<close> logs, cancels the lifecycle context, fixes its result \<open>nil\<close> and runs the
  deferred \<open>wg.Wait()\<close> before it returns to the caller. The result is \<open>None\<close> when
  the wait blocks and the call never returns; otherwise it is the events, the client
  after the call and the returned error (\<open>None\<close> for \<open>nil\<close>).
\<close>

definition BucketClient_Close ::
  "('c, 'd, 'r) BucketClient \<Rightarrow>
     (('c, 'd) event list \<times> ('c, 'd, 'r) BucketClient \<times> 'x error option) option" where
  "BucketClient_Close e =
     (let evs = [Log (BucketClient.logger e) DebugLevel []];
          e' = e\<lparr>BucketClient.ctxt := cancel (BucketClient.ctxt e)\<rparr>
      in if WaitGroup_Wait_returns (BucketClient.wg e') then Some (evs, e', None) else None)"

section \<open>The client bound to a bucket-name prefix (src/unnamed/part_001)\<close>

record PrefixClient_Options =
  LogName :: string
  Endpoint :: string
  Secure :: bool
  Region :: string
  Prefix :: string
  AccessKey :: string
  SecretKey :: string

record ('c, 'd, 'r) PrefixClient =
  logger :: zerolog_Logger
  options :: PrefixClient_Options
  client :: "('c, 'd, 'r) minio_Client"
  makeOpts :: minio_MakeBucketOptions
  getOpts :: minio_GetObjectOptions
  putOpts :: minio_PutObjectOptions
  removeOpts :: minio_RemoveObjectOptions
  ctxt :: lifecycle
  wg :: nat

definition PrefixClient_New ::
  "('c, 'd, 'r, 'x) minio_New \<Rightarrow> PrefixClient_Options \<Rightarrow> zerolog_Logger \<Rightarrow>
     ('c, 'd) event list \<times> ('x error + ('c, 'd, 'r) PrefixClient)" where
  "PrefixClient_New minio_New opts lg =
     (let l = With_Str lg (PrefixClient_Options.LogName opts) ''S3'';
          mo = \<lparr>minio_Options.Creds =
                  NewStaticV4 (PrefixClient_Options.AccessKey opts) (PrefixClient_Options.SecretKey opts) [],
                minio_Options.Secure = PrefixClient_Options.Secure opts,
                minio_Options.Region = PrefixClient_Options.Region opts\<rparr>;
          evs = [Log l DebugLevel
                   [Str (PrefixClient_Options.Endpoint opts), Str (PrefixClient_Options.Prefix opts)],
                 Session (PrefixClient_Options.Endpoint opts) mo]
      in (case minio_New (PrefixClient_Options.Endpoint opts) mo of
            Inl err \<Rightarrow> (evs, Inl (FailedToCreate err))
          | Inr cl \<Rightarrow>
              (evs,
               Inr \<lparr>PrefixClient.logger = l,
                    PrefixClient.options = opts,
                    PrefixClient.client = cl,
                    PrefixClient.makeOpts = MakeBucketOptions_zero,
                    PrefixClient.getOpts = GetObjectOptions_zero,
                    PrefixClient.putOpts =
                      \<lparr>minio_PutObjectOptions.ContentType = ''application/octet-stream''\<rparr>,
                    PrefixClient.removeOpts = RemoveObjectOptions_zero,
                    PrefixClient.ctxt = WithCancel_Background,
                    PrefixClient.wg = 0\<rparr>)))"

definition PrefixClient_PresignedGetObject ::
  "('c, 'd, 'r) PrefixClient \<Rightarrow> 'c \<Rightarrow> string \<Rightarrow> string \<Rightarrow> Duration \<Rightarrow> ('c, 'd) event list \<times> 'r" where
  "PrefixClient_PresignedGetObject e cx bucket key expires =
     (let call =
            Minio_PresignedGetObject cx
              (PrefixClient_Options.Prefix (PrefixClient.options e) @ bucket) key expires
      in ([Log (PrefixClient.logger e) DebugLevel
            [Str key, Str bucket, Str (PrefixClient_Options.Prefix (PrefixClient.options e)), Dur expires],
           Backend call],
          PrefixClient.client e call))"

definition PrefixClient_MakeBucket ::
  "('c, 'd, 'r) PrefixClient \<Rightarrow> 'c \<Rightarrow> string \<Rightarrow> ('c, 'd) event list \<times> 'r" where
  "PrefixClient_MakeBucket e cx bucket =
     (let call =
            Minio_MakeBucket cx (PrefixClient_Options.Prefix (PrefixClient.options e) @ bucket)
              (PrefixClient.makeOpts e)
      in ([Log (PrefixClient.logger e) DebugLevel
            [Str bucket, Str (PrefixClient_Options.Prefix (PrefixClient.options e))],
           Backend call],
          PrefixClient.client e call))"

definition PrefixClient_RemoveBucket ::
  "('c, 'd, 'r) PrefixClient \<Rightarrow> 'c \<Rightarrow> string \<Rightarrow> ('c, 'd) event list \<times> 'r" where
  "PrefixClient_RemoveBucket e cx bucket =
     (let call =
            Minio_RemoveBucket cx
              (PrefixClient_Options.Prefix (PrefixClient.options e) @ bucket)
      in ([Log (PrefixClient.logger e) DebugLevel
            [Str bucket, Str (PrefixClient_Options.Prefix (PrefixClient.options e))],
           Backend call],
          PrefixClient.client e call))"

definition PrefixClient_GetObject ::
  "('c, 'd, 'r) PrefixClient \<Rightarrow> 'c \<Rightarrow> string \<Rightarrow> string \<Rightarrow> ('c, 'd) event list \<times> 'r" where
  "PrefixClient_GetObject e cx bucket key =
     (let call =
            Minio_GetObject cx (PrefixClient_Options.Prefix (PrefixClient.options e) @ bucket)
              key (PrefixClient.getOpts e)
      in ([Log (PrefixClient.logger e) DebugLevel
            [Str key, Str bucket, Str (PrefixClient_Options.Prefix (PrefixClient.options e))],
           Backend call],
          PrefixClient.client e call))"

definition PrefixClient_PutObject ::
  "('c, 'd, 'r) PrefixClient \<Rightarrow> 'c \<Rightarrow> string \<Rightarrow> string \<Rightarrow> 'd \<Rightarrow> int64 \<Rightarrow>
     ('c, 'd) event list \<times> 'r" where
  "PrefixClient_PutObject e cx bucket key reader objectSize =
     (let call =
            Minio_PutObject cx (PrefixClient_Options.Prefix (PrefixClient.options e) @ bucket)
              key reader objectSize
                   (PrefixClient.putOpts e)
      in ([Log (PrefixClient.logger e) DebugLevel
            [Str key, Str bucket, Str (PrefixClient_Options.Prefix (PrefixClient.options e))],
           Backend call],
          PrefixClient.client e call))"

definition PrefixClient_ListObjects ::
  "('c, 'd, 'r) PrefixClient \<Rightarrow> 'c \<Rightarrow> string \<Rightarrow> string \<Rightarrow> ('c, 'd) event list \<times> 'r" where
  "PrefixClient_ListObjects e cx bucket subprefix =
     (let call =
            Minio_ListObjects cx (PrefixClient_Options.Prefix (PrefixClient.options e) @ bucket)
                   \<lparr>minio_ListObjectsOptions.Prefix = subprefix\<rparr>
      in ([Log (PrefixClient.logger e) DebugLevel
            [Str bucket, Str (PrefixClient_Options.Prefix (PrefixClient.options e)), Str subprefix],
           Backend call],
          PrefixClient.client e call))"

definition PrefixClient_DeleteObject ::
  "('c, 'd, 'r) PrefixClient \<Rightarrow> 'c \<Rightarrow> string \<Rightarrow> string \<Rightarrow> ('c, 'd) event list \<times> 'r" where
  "PrefixClient_DeleteObject e cx bucket key =
     (let call =
            Minio_RemoveObject cx
              (PrefixClient_Options.Prefix (PrefixClient.options e) @ bucket) key
              (PrefixClient.removeOpts e)
      in ([Log (PrefixClient.logger e) DebugLevel
            [Str key, Str bucket, Str (PrefixClient_Options.Prefix (PrefixClient.options e))],
           Backend call],
          PrefixClient.client e call))"

text \<open>
  \<open>Close\<close> logs, cancels the lifecycle context, fixes its result \<open>nil\<close> and runs the
  deferred \<open>wg.Wait()\<close> before it returns to the caller. The result is \<open>None\<close> when
  the wait blocks and the call never returns; otherwise it is the events, the client
  after the call and the returned error (\<open>None\<close> for \<open>nil\<close>).
\<close>

definition PrefixClient_Close ::
  "('c, 'd, 'r) PrefixClient \<Rightarrow>
     (('c, 'd) event list \<times> ('c, 'd, 'r) PrefixClient \<times> 'x error option) option" where
  "PrefixClient_Close e =
     (let evs = [Log (PrefixClient.logger e) DebugLevel []];
          e' = e\<lparr>PrefixClient.ctxt := cancel (PrefixClient.ctxt e)\<rparr>
      in if WaitGroup_Wait_returns (PrefixClient.wg e') then Some (evs, e', None) else None)"

section \<open>Observing an operation\<close>

text \<open>
  \<open>issues out cl call\<close>: the operation whose outcome is \<open>out\<close> called the backend exactly
  once, with \<open>call\<close>, and returned what the handle \<open>cl\<close> answers to that call.
\<close>

definition issues ::
  "('c, 'd) event list \<times> 'r \<Rightarrow> ('c, 'd, 'r) minio_Client \<Rightarrow> ('c, 'd) minio_call \<Rightarrow> bool" where
  "issues out cl call \<longleftrightarrow> backend_calls (fst out) = [call] \<and> snd out = cl call"

section \<open>Properties of the configuration\<close>

text \<open>
  C3. For every configuration that is not disabled, \<open>Validate\<close> returns the error of the
  first empty field in the order endpoint, region, bucket, access key, secret key, and
  \<open>nil\<close> when none of the five is empty. This holds in the variant with a disabled flag
  (under the hypothesis that the flag is off) and in the variant without one. The five
  errors are distinct values.
\<close>

theorem Validate_first_missing:
  assumes "\<not> Config.Disabled c"
  shows "Config_Validate c =
           first_missing (required_in_order (Config.Endpoint c) (Config.Region c)
             (Config.Bucket c) (Config.AccessKey c) (Config.SecretKey c))
       \<and> YamlConfig_Validate y =
           first_missing (required_in_order (YamlConfig.Endpoint y) (YamlConfig.Region y)
             (YamlConfig.Bucket y) (YamlConfig.AccessKey y) (YamlConfig.SecretKey y))
       \<and> distinct [ErrEndpointRequired, ErrRegionRequired, ErrBucketRequired,
             ErrAccessKeyRequired, ErrSecretKeyRequired]"
  using assms
  by (simp add: Config_Validate_def YamlConfig_Validate_def required_in_order_def)

text \<open>
  The specification's example: endpoint and bucket both empty, everything else set. The
  result is the endpoint error, not the bucket error.
\<close>

theorem Validate_first_missing_witness:
  "\<not> Config.Disabled
       \<lparr>Config.Disabled = False, Config.Endpoint = [], Config.Secure = True,
        Config.Region = ''auto'', Config.Bucket = [], Config.AccessKey = ''ak'',
        Config.SecretKey = ''sk''\<rparr>
   \<and> Config_Validate
       \<lparr>Config.Disabled = False, Config.Endpoint = [], Config.Secure = True,
        Config.Region = ''auto'', Config.Bucket = [], Config.AccessKey = ''ak'',
        Config.SecretKey = ''sk''\<rparr> = Some ErrEndpointRequired
   \<and> YamlConfig_Validate
       \<lparr>YamlConfig.Endpoint = [], YamlConfig.Secure = True,
        YamlConfig.Region = ''auto'', YamlConfig.Bucket = [], YamlConfig.AccessKey = ''ak'',
        YamlConfig.SecretKey = ''sk''\<rparr> = Some ErrEndpointRequired"
  using Validate_first_missing
    [of "\<lparr>Config.Disabled = False, Config.Endpoint = [], Config.Secure = True,
          Config.Region = ''auto'', Config.Bucket = [], Config.AccessKey = ''ak'',
          Config.SecretKey = ''sk''\<rparr>"
        "\<lparr>YamlConfig.Endpoint = [], YamlConfig.Secure = True,
          YamlConfig.Region = ''auto'', YamlConfig.Bucket = [], YamlConfig.AccessKey = ''ak'',
          YamlConfig.SecretKey = ''sk''\<rparr>"]
  by (simp add: required_in_order_def)

text \<open>
  C4. In the variant with a disabled flag, a configuration whose flag is set validates
  successfully whatever its other fields hold.
\<close>

theorem Validate_disabled:
  assumes "Config.Disabled c"
  shows "Config_Validate c = None"
  using assms by (simp add: Config_Validate_def)

theorem Validate_disabled_witness:
  "Config.Disabled
       \<lparr>Config.Disabled = True, Config.Endpoint = [], Config.Secure = False,
        Config.Region = [], Config.Bucket = [], Config.AccessKey = [],
        Config.SecretKey = []\<rparr>
   \<and> Config_Validate
       \<lparr>Config.Disabled = True, Config.Endpoint = [], Config.Secure = False,
        Config.Region = [], Config.Bucket = [], Config.AccessKey = [],
        Config.SecretKey = []\<rparr> = None"
  using Validate_disabled
    [of "\<lparr>Config.Disabled = True, Config.Endpoint = [], Config.Secure = False,
          Config.Region = [], Config.Bucket = [], Config.AccessKey = [],
          Config.SecretKey = []\<rparr>"]
  by simp

text \<open>
  C6. The configuration returned by \<open>New\<close> has secure on, region \<open>auto\<close>, the disabled
  flag off (where the variant has one) and every other field empty, and validating it
  fails on the endpoint.
\<close>

theorem New_defaults_need_endpoint:
  "Config_New =
     \<lparr>Config.Disabled = False, Config.Endpoint = [], Config.Secure = True,
      Config.Region = ''auto'', Config.Bucket = [], Config.AccessKey = [],
      Config.SecretKey = []\<rparr>
   \<and> Config_Validate Config_New = Some ErrEndpointRequired
   \<and> YamlConfig_New =
     \<lparr>YamlConfig.Endpoint = [], YamlConfig.Secure = True,
      YamlConfig.Region = ''auto'', YamlConfig.Bucket = [], YamlConfig.AccessKey = [],
      YamlConfig.SecretKey = []\<rparr>
   \<and> YamlConfig_Validate YamlConfig_New = Some ErrEndpointRequired"
  by (simp add: Config_New_def YamlConfig_New_def Config_Validate_def YamlConfig_Validate_def
      DefaultDisabled_def DefaultSecure_def DefaultRegion_def)

section \<open>Properties of the clients\<close>

lemma prefixedKey_concat: "prefixedKey prefix key = prefix @ ''/'' @ key"
  by (simp add: prefixedKey_def)

lemma S3_New_wg:
  assumes "snd (S3_New minio_New opts lg) = Inr e"
  shows "S3.wg e = 0"
  using assms by (auto simp: S3_New_def Let_def split: if_splits sum.splits)

lemma BucketClient_New_wg:
  assumes "snd (BucketClient_New minio_New opts lg) = Inr e"
  shows "BucketClient.wg e = 0"
  using assms by (auto simp: BucketClient_New_def Let_def split: sum.splits)

lemma PrefixClient_New_wg:
  assumes "snd (PrefixClient_New minio_New opts lg) = Inr e"
  shows "PrefixClient.wg e = 0"
  using assms by (auto simp: PrefixClient_New_def Let_def split: sum.splits)

lemma PrefixClient_New_fields:
  assumes "snd (PrefixClient_New minio_New opts lg) = Inr e"
  shows "PrefixClient.options e = opts"
    and "PrefixClient.putOpts e =
           \<lparr>minio_PutObjectOptions.ContentType = ''application/octet-stream''\<rparr>"
  using assms by (auto simp: PrefixClient_New_def Let_def split: sum.splits)

lemma S3_Close_idle:
  assumes "S3.wg e = 0"
  shows "S3_Close e = Some ([Log (S3.logger e) DebugLevel []], e\<lparr>S3.ctx := Cancelled\<rparr>, None)"
  using assms by (simp add: S3_Close_def Let_def cancel_def WaitGroup_Wait_returns_def)

lemma BucketClient_Close_idle:
  assumes "BucketClient.wg e = 0"
  shows "BucketClient_Close e =
           Some ([Log (BucketClient.logger e) DebugLevel []],
                 e\<lparr>BucketClient.ctxt := Cancelled\<rparr>, None)"
  using assms by (simp add: BucketClient_Close_def Let_def cancel_def WaitGroup_Wait_returns_def)

lemma PrefixClient_Close_idle:
  assumes "PrefixClient.wg e = 0"
  shows "PrefixClient_Close e =
           Some ([Log (PrefixClient.logger e) DebugLevel []],
                 e\<lparr>PrefixClient.ctxt := Cancelled\<rparr>, None)"
  using assms by (simp add: PrefixClient_Close_def Let_def cancel_def WaitGroup_Wait_returns_def)

text \<open>
  C1. In the two variants bound to one bucket, each of \<open>PresignedGetObject\<close>,
  \<open>GetObject\<close>, \<open>PutObject\<close> and \<open>DeleteObject\<close> calls the backend once, on the
  configured bucket, with the object key \<open>prefix + "/" + key\<close>, for all strings
  \<open>prefix\<close> and \<open>key\<close>; prefix \<open>logs\<close> and key \<open>2024/01/a.txt\<close> give
  \<open>logs/2024/01/a.txt\<close>.
\<close>

theorem bucket_fixed_object_key:
  "issues (S3_PresignedGetObject s cx prefix key expires) (S3.client s)
     (Minio_PresignedGetObject cx (S3_Options.Bucket (S3.options s))
        (prefix @ ''/'' @ key) expires)
   \<and> issues (S3_GetObject s cx prefix key) (S3.client s)
     (Minio_GetObject cx (S3_Options.Bucket (S3.options s))
        (prefix @ ''/'' @ key) (S3.getOpts s))
   \<and> issues (S3_PutObject s cx prefix key reader objectSize contentType) (S3.client s)
     (Minio_PutObject cx (S3_Options.Bucket (S3.options s))
        (prefix @ ''/'' @ key) reader objectSize
        \<lparr>minio_PutObjectOptions.ContentType = contentType\<rparr>)
   \<and> issues (S3_DeleteObject s cx prefix key) (S3.client s)
     (Minio_RemoveObject cx (S3_Options.Bucket (S3.options s))
        (prefix @ ''/'' @ key) (S3.removeOpts s))
   \<and> issues (BucketClient_PresignedGetObject b cx prefix key expires) (BucketClient.client b)
     (Minio_PresignedGetObject cx (BucketClient_Options.Bucket (BucketClient.options b))
        (prefix @ ''/'' @ key) expires)
   \<and> issues (BucketClient_GetObject b cx prefix key) (BucketClient.client b)
     (Minio_GetObject cx (BucketClient_Options.Bucket (BucketClient.options b))
        (prefix @ ''/'' @ key) (BucketClient.getOpts b))
   \<and> issues (BucketClient_PutObject b cx prefix key reader objectSize contentType)
     (BucketClient.client b)
     (Minio_PutObject cx (BucketClient_Options.Bucket (BucketClient.options b))
        (prefix @ ''/'' @ key) reader objectSize
        \<lparr>minio_PutObjectOptions.ContentType = contentType\<rparr>)
   \<and> issues (BucketClient_DeleteObject b cx prefix key) (BucketClient.client b)
     (Minio_RemoveObject cx (BucketClient_Options.Bucket (BucketClient.options b))
        (prefix @ ''/'' @ key) (BucketClient.removeOpts b))
   \<and> prefixedKey ''logs'' ''2024/01/a.txt'' = ''logs/2024/01/a.txt''"
  by (simp add: issues_def prefixedKey_concat Let_def
      S3_PresignedGetObject_def S3_GetObject_def S3_PutObject_def S3_DeleteObject_def
      BucketClient_PresignedGetObject_def BucketClient_GetObject_def
      BucketClient_PutObject_def BucketClient_DeleteObject_def)

text \<open>
  C2. In the variant bound to a prefix, each object operation calls the backend once, on
  the bucket \<open>prefix + bucket\<close> (no separator) and with the caller's key as it is, for
  all strings; \<open>ListObjects\<close> lists that bucket with the caller's sub-prefix as the
  filter.
\<close>

theorem prefix_namespace_bucket:
  "issues (PrefixClient_PresignedGetObject p cx bucket key expires) (PrefixClient.client p)
     (Minio_PresignedGetObject cx
        (PrefixClient_Options.Prefix (PrefixClient.options p) @ bucket) key expires)
   \<and> issues (PrefixClient_GetObject p cx bucket key) (PrefixClient.client p)
     (Minio_GetObject cx
        (PrefixClient_Options.Prefix (PrefixClient.options p) @ bucket) key
        (PrefixClient.getOpts p))
   \<and> issues (PrefixClient_PutObject p cx bucket key reader objectSize) (PrefixClient.client p)
     (Minio_PutObject cx
        (PrefixClient_Options.Prefix (PrefixClient.options p) @ bucket) key reader objectSize
        (PrefixClient.putOpts p))
   \<and> issues (PrefixClient_DeleteObject p cx bucket key) (PrefixClient.client p)
     (Minio_RemoveObject cx
        (PrefixClient_Options.Prefix (PrefixClient.options p) @ bucket) key
        (PrefixClient.removeOpts p))
   \<and> issues (PrefixClient_ListObjects p cx bucket subprefix) (PrefixClient.client p)
     (Minio_ListObjects cx
        (PrefixClient_Options.Prefix (PrefixClient.options p) @ bucket)
        \<lparr>minio_ListObjectsOptions.Prefix = subprefix\<rparr>)"
  by (simp add: issues_def Let_def
      PrefixClient_PresignedGetObject_def PrefixClient_GetObject_def
      PrefixClient_PutObject_def PrefixClient_DeleteObject_def PrefixClient_ListObjects_def)

text \<open>
  C5. With \<open>Disabled\<close> set, \<open>New\<close> of src/s3.go logs one warning and returns
  \<open>ErrDisabled\<close>: it constructs no backend session and calls no backend, whatever
  \<open>minio.New\<close> would have answered. \<open>ErrDisabled\<close> tells this outcome from every other
  one: for all inputs, \<open>New\<close> returns it exactly when \<open>Disabled\<close> is set.
\<close>

theorem New_disabled:
  assumes "S3_Options.Disabled opts"
  shows "S3_New (minio_New :: ('c, 'd, 'r, 'x) minio_New) opts lg =
           ([Log (With_Str lg (S3_Options.LogName opts) ''S3'') WarnLevel []], Inl ErrDisabled)
       \<and> sessions (fst (S3_New minio_New opts lg)) = []
       \<and> backend_calls (fst (S3_New minio_New opts lg)) = []
       \<and> (\<forall>(minio_New' :: ('c, 'd, 'r, 'x) minio_New) opts' lg'.
             (snd (S3_New minio_New' opts' lg') = Inl ErrDisabled) = S3_Options.Disabled opts')"
proof -
  have first: "S3_New minio_New opts lg =
      ([Log (With_Str lg (S3_Options.LogName opts) ''S3'') WarnLevel []], Inl ErrDisabled)"
    using assms by (simp add: S3_New_def Let_def)
  have kind: "(snd (S3_New minio_New' opts' lg') = Inl ErrDisabled) = S3_Options.Disabled opts'"
    for minio_New' :: "('c, 'd, 'r, 'x) minio_New" and opts' lg'
    by (simp add: S3_New_def Let_def split: sum.splits)
  show ?thesis
    using first kind by simp
qed

theorem New_disabled_witness:
  "S3_Options.Disabled
     \<lparr>S3_Options.LogName = ''svc'', S3_Options.Disabled = True, S3_Options.Endpoint = [],
      S3_Options.Secure = True, S3_Options.Region = ''auto'', S3_Options.Bucket = [],
      S3_Options.AccessKey = [], S3_Options.SecretKey = []\<rparr>
   \<and> S3_New (\<lambda>endpoint mo. Inr (\<lambda>call :: (unit, unit) minio_call. ()) :: unit + _)
       \<lparr>S3_Options.LogName = ''svc'', S3_Options.Disabled = True, S3_Options.Endpoint = [],
        S3_Options.Secure = True, S3_Options.Region = ''auto'', S3_Options.Bucket = [],
        S3_Options.AccessKey = [], S3_Options.SecretKey = []\<rparr> []
     = ([Log [(''svc'', ''S3'')] WarnLevel []], Inl ErrDisabled)"
  using New_disabled
    [of "\<lparr>S3_Options.LogName = ''svc'', S3_Options.Disabled = True, S3_Options.Endpoint = [],
          S3_Options.Secure = True, S3_Options.Region = ''auto'', S3_Options.Bucket = [],
          S3_Options.AccessKey = [], S3_Options.SecretKey = []\<rparr>"
        "\<lambda>endpoint mo. Inr (\<lambda>call :: (unit, unit) minio_call. ()) :: unit + _" "[]"]
  by (simp add: With_Str_def)

text \<open>
  C7. A client of the prefix variant that \<open>New\<close> returned uploads every object with
  the content type \<open>application/octet-stream\<close>: its \<open>PutObject\<close> has no content-type
  parameter and hands the backend the options that \<open>New\<close> stored. In the two variants
  bound to one bucket, \<open>PutObject\<close> hands the backend its \<open>contentType\<close> argument
  unchanged.
\<close>

theorem PutObject_content_type:
  assumes "snd (PrefixClient_New minio_New opts lg) = Inr p"
  shows "issues (PrefixClient_PutObject p cx bucket key reader objectSize)
           (PrefixClient.client p)
           (Minio_PutObject cx (PrefixClient_Options.Prefix opts @ bucket) key reader objectSize
              \<lparr>minio_PutObjectOptions.ContentType = ''application/octet-stream''\<rparr>)
       \<and> issues (S3_PutObject s cx prefix key reader objectSize contentType) (S3.client s)
           (Minio_PutObject cx (S3_Options.Bucket (S3.options s)) (prefixedKey prefix key)
              reader objectSize \<lparr>minio_PutObjectOptions.ContentType = contentType\<rparr>)
       \<and> issues (BucketClient_PutObject b cx prefix key reader objectSize contentType)
           (BucketClient.client b)
           (Minio_PutObject cx (BucketClient_Options.Bucket (BucketClient.options b))
              (prefixedKey prefix key) reader objectSize
              \<lparr>minio_PutObjectOptions.ContentType = contentType\<rparr>)"
  using PrefixClient_New_fields [OF assms]
  by (simp add: issues_def Let_def PrefixClient_PutObject_def S3_PutObject_def
      BucketClient_PutObject_def)

theorem PutObject_content_type_witness:
  "snd (PrefixClient_New (\<lambda>endpoint mo. Inr (\<lambda>call :: (unit, string) minio_call. ()) :: unit + _)
          \<lparr>PrefixClient_Options.LogName = ''svc'', PrefixClient_Options.Endpoint = ''localhost:9000'',
           PrefixClient_Options.Secure = False, PrefixClient_Options.Region = ''auto'',
           PrefixClient_Options.Prefix = ''tenant-'', PrefixClient_Options.AccessKey = ''ak'', PrefixClient_Options.SecretKey = ''sk''\<rparr> [])
     = Inr \<lparr>PrefixClient.logger = [(''svc'', ''S3'')],
          PrefixClient.options =
            \<lparr>PrefixClient_Options.LogName = ''svc'', PrefixClient_Options.Endpoint = ''localhost:9000'',
             PrefixClient_Options.Secure = False, PrefixClient_Options.Region = ''auto'',
             PrefixClient_Options.Prefix = ''tenant-'', PrefixClient_Options.AccessKey = ''ak'', PrefixClient_Options.SecretKey = ''sk''\<rparr>,
          PrefixClient.client = (\<lambda>call :: (unit, string) minio_call. ()),
          PrefixClient.makeOpts = MakeBucketOptions_zero, PrefixClient.getOpts = GetObjectOptions_zero,
          PrefixClient.putOpts =
            \<lparr>minio_PutObjectOptions.ContentType = ''application/octet-stream''\<rparr>,
          PrefixClient.removeOpts = RemoveObjectOptions_zero,
          PrefixClient.ctxt = Live, PrefixClient.wg = 0\<rparr>
   \<and> issues
       (PrefixClient_PutObject
          \<lparr>PrefixClient.logger = [(''svc'', ''S3'')],
           PrefixClient.options =
             \<lparr>PrefixClient_Options.LogName = ''svc'', PrefixClient_Options.Endpoint = ''localhost:9000'',
              PrefixClient_Options.Secure = False, PrefixClient_Options.Region = ''auto'',
              PrefixClient_Options.Prefix = ''tenant-'', PrefixClient_Options.AccessKey = ''ak'', PrefixClient_Options.SecretKey = ''sk''\<rparr>,
           PrefixClient.client = (\<lambda>call :: (unit, string) minio_call. ()),
           PrefixClient.makeOpts = MakeBucketOptions_zero, PrefixClient.getOpts = GetObjectOptions_zero,
           PrefixClient.putOpts =
             \<lparr>minio_PutObjectOptions.ContentType = ''application/octet-stream''\<rparr>,
           PrefixClient.removeOpts = RemoveObjectOptions_zero,
           PrefixClient.ctxt = Live, PrefixClient.wg = 0\<rparr>
          () ''alpha'' ''a.bin'' ''payload'' 7)
       (\<lambda>call. ())
       (Minio_PutObject () ''tenant-alpha'' ''a.bin'' ''payload'' 7
          \<lparr>minio_PutObjectOptions.ContentType = ''application/octet-stream''\<rparr>)"
  (is "?built \<and> ?put")
proof -
  have built: ?built
    by (simp add: PrefixClient_New_def Let_def With_Str_def WithCancel_Background_def)
  have ?put
    using PutObject_content_type
      [OF built, of "()" "''alpha''" "''a.bin''" "''payload''" 7, THEN conjunct1]
    by simp
  then show ?thesis
    using built by simp
qed

text \<open>
  C8. \<open>MakeBucket\<close> and \<open>RemoveBucket\<close> of the two variants bound to one bucket hand the
  caller's bucket name to the backend as it is: neither the configured bucket nor a
  prefix enters the call. In the prefix variant both prepend the configured prefix.
\<close>

theorem bucket_lifecycle_names:
  "issues (S3_MakeBucket s cx bucket) (S3.client s)
     (Minio_MakeBucket cx bucket (S3.makeOpts s))
   \<and> issues (S3_RemoveBucket s cx bucket) (S3.client s) (Minio_RemoveBucket cx bucket)
   \<and> issues (BucketClient_MakeBucket b cx bucket) (BucketClient.client b)
     (Minio_MakeBucket cx bucket (BucketClient.makeOpts b))
   \<and> issues (BucketClient_RemoveBucket b cx bucket) (BucketClient.client b)
     (Minio_RemoveBucket cx bucket)
   \<and> issues (PrefixClient_MakeBucket p cx bucket) (PrefixClient.client p)
     (Minio_MakeBucket cx (PrefixClient_Options.Prefix (PrefixClient.options p) @ bucket)
        (PrefixClient.makeOpts p))
   \<and> issues (PrefixClient_RemoveBucket p cx bucket) (PrefixClient.client p)
     (Minio_RemoveBucket cx (PrefixClient_Options.Prefix (PrefixClient.options p) @ bucket))"
  by (simp add: issues_def Let_def S3_MakeBucket_def S3_RemoveBucket_def
      BucketClient_MakeBucket_def BucketClient_RemoveBucket_def
      PrefixClient_MakeBucket_def PrefixClient_RemoveBucket_def)

text \<open>
  C9. The key built by \<open>prefixedKey\<close> always contains the separator: an empty prefix
  gives \<open>"/" + key\<close>, an empty key gives \<open>prefix + "/"\<close>, and \<open>ListObjects\<close> of the two
  variants bound to one bucket lists the configured bucket with the filter
  \<open>prefix + "/"\<close>. Nothing is normalised and nothing is rejected: the object operations
  reach the backend with these keys for every prefix and key, empty ones included.
\<close>

theorem prefixedKey_keeps_separator:
  "CHR ''/'' \<in> set (prefixedKey prefix key)
   \<and> prefixedKey [] key = ''/'' @ key
   \<and> prefixedKey prefix [] = prefix @ ''/''
   \<and> prefixedKey [] [] = ''/''
   \<and> issues (S3_ListObjects s cx prefix) (S3.client s)
     (Minio_ListObjects cx (S3_Options.Bucket (S3.options s))
        \<lparr>minio_ListObjectsOptions.Prefix = prefix @ ''/''\<rparr>)
   \<and> issues (BucketClient_ListObjects b cx prefix) (BucketClient.client b)
     (Minio_ListObjects cx (BucketClient_Options.Bucket (BucketClient.options b))
        \<lparr>minio_ListObjectsOptions.Prefix = prefix @ ''/''\<rparr>)
   \<and> issues (S3_GetObject s cx [] key) (S3.client s)
     (Minio_GetObject cx (S3_Options.Bucket (S3.options s)) (''/'' @ key) (S3.getOpts s))
   \<and> issues (S3_GetObject s cx prefix []) (S3.client s)
     (Minio_GetObject cx (S3_Options.Bucket (S3.options s)) (prefix @ ''/'') (S3.getOpts s))
   \<and> issues (BucketClient_GetObject b cx [] key) (BucketClient.client b)
     (Minio_GetObject cx (BucketClient_Options.Bucket (BucketClient.options b)) (''/'' @ key)
        (BucketClient.getOpts b))
   \<and> issues (BucketClient_GetObject b cx prefix []) (BucketClient.client b)
     (Minio_GetObject cx (BucketClient_Options.Bucket (BucketClient.options b))
        (prefix @ ''/'') (BucketClient.getOpts b))"
  by (simp add: issues_def Let_def prefixedKey_concat S3_ListObjects_def
      BucketClient_ListObjects_def S3_GetObject_def BucketClient_GetObject_def)

text \<open>
  C10. \<open>Close\<close> returns \<open>nil\<close> in all three variants. On a client that \<open>New\<close> returned,
  the call cancels the lifecycle context, its wait on the completion tracker returns
  (the counter is zero: \<open>New\<close> creates it so and nothing in the package adds to it), and
  the result is \<open>nil\<close>; the same holds for a second call, on the client the first call
  left behind. On no client at all does \<open>Close\<close> return an error. \<open>Close\<close> does wait
  for the completion tracker: on every client, the call returns exactly when the counter
  is zero, and on a client whose counter is not zero it blocks and returns nothing.
\<close>

theorem Close_returns_nil:
  assumes "snd (S3_New (mn1 :: ('c, 'd, 'r, 'x) minio_New) opts1 lg1) = Inr s"
    and "snd (BucketClient_New (mn2 :: ('c, 'd, 'r, 'x) minio_New) opts2 lg2) = Inr b"
    and "snd (PrefixClient_New (mn3 :: ('c, 'd, 'r, 'x) minio_New) opts3 lg3) = Inr p"
  shows "S3_Close s =
           Some ([Log (S3.logger s) DebugLevel []], s\<lparr>S3.ctx := Cancelled\<rparr>,
                 (None :: 'x error option))
       \<and> S3_Close (s\<lparr>S3.ctx := Cancelled\<rparr>) =
           Some ([Log (S3.logger s) DebugLevel []], s\<lparr>S3.ctx := Cancelled\<rparr>,
                 (None :: 'x error option))
       \<and> BucketClient_Close b =
           Some ([Log (BucketClient.logger b) DebugLevel []],
                 b\<lparr>BucketClient.ctxt := Cancelled\<rparr>, (None :: 'x error option))
       \<and> BucketClient_Close (b\<lparr>BucketClient.ctxt := Cancelled\<rparr>) =
           Some ([Log (BucketClient.logger b) DebugLevel []],
                 b\<lparr>BucketClient.ctxt := Cancelled\<rparr>, (None :: 'x error option))
       \<and> PrefixClient_Close p =
           Some ([Log (PrefixClient.logger p) DebugLevel []],
                 p\<lparr>PrefixClient.ctxt := Cancelled\<rparr>, (None :: 'x error option))
       \<and> PrefixClient_Close (p\<lparr>PrefixClient.ctxt := Cancelled\<rparr>) =
           Some ([Log (PrefixClient.logger p) DebugLevel []],
                 p\<lparr>PrefixClient.ctxt := Cancelled\<rparr>, (None :: 'x error option))
       \<and> (\<forall>(s' :: ('c, 'd, 'r) S3) evs e' (err :: 'x error).
             S3_Close s' \<noteq> Some (evs, e', Some err))
       \<and> (\<forall>(b' :: ('c, 'd, 'r) BucketClient) evs e' (err :: 'x error).
             BucketClient_Close b' \<noteq> Some (evs, e', Some err))
       \<and> (\<forall>(p' :: ('c, 'd, 'r) PrefixClient) evs e' (err :: 'x error).
             PrefixClient_Close p' \<noteq> Some (evs, e', Some err))
       \<and> (\<forall>s' :: ('c, 'd, 'r) S3.
             (\<exists>r :: ('c, 'd) event list \<times> ('c, 'd, 'r) S3 \<times> 'x error option.
                S3_Close s' = Some r) = (S3.wg s' = 0))
       \<and> (\<forall>b' :: ('c, 'd, 'r) BucketClient.
             (\<exists>r :: ('c, 'd) event list \<times> ('c, 'd, 'r) BucketClient \<times> 'x error option.
                BucketClient_Close b' = Some r) = (BucketClient.wg b' = 0))
       \<and> (\<forall>p' :: ('c, 'd, 'r) PrefixClient.
             (\<exists>r :: ('c, 'd) event list \<times> ('c, 'd, 'r) PrefixClient \<times> 'x error option.
                PrefixClient_Close p' = Some r) = (PrefixClient.wg p' = 0))
       \<and> (\<forall>s' :: ('c, 'd, 'r) S3.
             (S3_Close s' =
                (None :: (('c, 'd) event list \<times> ('c, 'd, 'r) S3 \<times> 'x error option) option))
             = (S3.wg s' \<noteq> 0))
       \<and> (\<forall>b' :: ('c, 'd, 'r) BucketClient.
             (BucketClient_Close b' =
                (None ::
                  (('c, 'd) event list \<times> ('c, 'd, 'r) BucketClient \<times> 'x error option) option))
             = (BucketClient.wg b' \<noteq> 0))
       \<and> (\<forall>p' :: ('c, 'd, 'r) PrefixClient.
             (PrefixClient_Close p' =
                (None ::
                  (('c, 'd) event list \<times> ('c, 'd, 'r) PrefixClient \<times> 'x error option) option))
             = (PrefixClient.wg p' \<noteq> 0))"
proof -
  have s0: "S3.wg s = 0" and b0: "BucketClient.wg b = 0" and p0: "PrefixClient.wg p = 0"
    using assms S3_New_wg BucketClient_New_wg PrefixClient_New_wg by blast+
  have s1: "S3.wg (s\<lparr>S3.ctx := Cancelled\<rparr>) = 0"
    and b1: "BucketClient.wg (b\<lparr>BucketClient.ctxt := Cancelled\<rparr>) = 0"
    and p1: "PrefixClient.wg (p\<lparr>PrefixClient.ctxt := Cancelled\<rparr>) = 0"
    using s0 b0 p0 by simp_all
  have no_error:
    "\<forall>(s' :: ('c, 'd, 'r) S3) evs e' (err :: 'x error).
        S3_Close s' \<noteq> Some (evs, e', Some err)"
    "\<forall>(b' :: ('c, 'd, 'r) BucketClient) evs e' (err :: 'x error).
        BucketClient_Close b' \<noteq> Some (evs, e', Some err)"
    "\<forall>(p' :: ('c, 'd, 'r) PrefixClient) evs e' (err :: 'x error).
        PrefixClient_Close p' \<noteq> Some (evs, e', Some err)"
    by (simp_all add: S3_Close_def BucketClient_Close_def PrefixClient_Close_def Let_def)
  have waits:
    "\<forall>s' :: ('c, 'd, 'r) S3.
        (\<exists>r :: ('c, 'd) event list \<times> ('c, 'd, 'r) S3 \<times> 'x error option.
           S3_Close s' = Some r) = (S3.wg s' = 0)"
    "\<forall>b' :: ('c, 'd, 'r) BucketClient.
        (\<exists>r :: ('c, 'd) event list \<times> ('c, 'd, 'r) BucketClient \<times> 'x error option.
           BucketClient_Close b' = Some r) = (BucketClient.wg b' = 0)"
    "\<forall>p' :: ('c, 'd, 'r) PrefixClient.
        (\<exists>r :: ('c, 'd) event list \<times> ('c, 'd, 'r) PrefixClient \<times> 'x error option.
           PrefixClient_Close p' = Some r) = (PrefixClient.wg p' = 0)"
    by (simp_all add: S3_Close_def BucketClient_Close_def PrefixClient_Close_def Let_def
        WaitGroup_Wait_returns_def)
  have blocks:
    "\<forall>s' :: ('c, 'd, 'r) S3.
        (S3_Close s' =
           (None :: (('c, 'd) event list \<times> ('c, 'd, 'r) S3 \<times> 'x error option) option))
        = (S3.wg s' \<noteq> 0)"
    "\<forall>b' :: ('c, 'd, 'r) BucketClient.
        (BucketClient_Close b' =
           (None ::
             (('c, 'd) event list \<times> ('c, 'd, 'r) BucketClient \<times> 'x error option) option))
        = (BucketClient.wg b' \<noteq> 0)"
    "\<forall>p' :: ('c, 'd, 'r) PrefixClient.
        (PrefixClient_Close p' =
           (None ::
             (('c, 'd) event list \<times> ('c, 'd, 'r) PrefixClient \<times> 'x error option) option))
        = (PrefixClient.wg p' \<noteq> 0)"
    by (simp_all add: S3_Close_def BucketClient_Close_def PrefixClient_Close_def Let_def
        WaitGroup_Wait_returns_def)
  have returns:
    "S3_Close s =
       Some ([Log (S3.logger s) DebugLevel []], s\<lparr>S3.ctx := Cancelled\<rparr>,
             (None :: 'x error option))"
    "S3_Close (s\<lparr>S3.ctx := Cancelled\<rparr>) =
       Some ([Log (S3.logger s) DebugLevel []], s\<lparr>S3.ctx := Cancelled\<rparr>,
             (None :: 'x error option))"
    "BucketClient_Close b =
       Some ([Log (BucketClient.logger b) DebugLevel []],
             b\<lparr>BucketClient.ctxt := Cancelled\<rparr>, (None :: 'x error option))"
    "BucketClient_Close (b\<lparr>BucketClient.ctxt := Cancelled\<rparr>) =
       Some ([Log (BucketClient.logger b) DebugLevel []],
             b\<lparr>BucketClient.ctxt := Cancelled\<rparr>, (None :: 'x error option))"
    "PrefixClient_Close p =
       Some ([Log (PrefixClient.logger p) DebugLevel []],
             p\<lparr>PrefixClient.ctxt := Cancelled\<rparr>, (None :: 'x error option))"
    "PrefixClient_Close (p\<lparr>PrefixClient.ctxt := Cancelled\<rparr>) =
       Some ([Log (PrefixClient.logger p) DebugLevel []],
             p\<lparr>PrefixClient.ctxt := Cancelled\<rparr>, (None :: 'x error option))"
    using S3_Close_idle [OF s0] S3_Close_idle [OF s1]
      BucketClient_Close_idle [OF b0] BucketClient_Close_idle [OF b1]
      PrefixClient_Close_idle [OF p0] PrefixClient_Close_idle [OF p1]
    by simp_all
  show ?thesis
    by (intro conjI returns no_error waits blocks)
qed

theorem Close_returns_nil_witness:
  "snd (S3_New (\<lambda>endpoint mo. Inr (\<lambda>call :: (unit, unit) minio_call. ()) :: unit + _)
          \<lparr>S3_Options.LogName = ''svc'', S3_Options.Disabled = False, S3_Options.Endpoint = ''localhost:9000'',
           S3_Options.Secure = False, S3_Options.Region = ''auto'',
           S3_Options.Bucket = ''data'', S3_Options.AccessKey = ''ak'', S3_Options.SecretKey = ''sk''\<rparr> [])
     = Inr \<lparr>S3.logger = [(''svc'', ''S3'')],
          S3.options =
            \<lparr>S3_Options.LogName = ''svc'', S3_Options.Disabled = False, S3_Options.Endpoint = ''localhost:9000'',
             S3_Options.Secure = False, S3_Options.Region = ''auto'',
             S3_Options.Bucket = ''data'', S3_Options.AccessKey = ''ak'', S3_Options.SecretKey = ''sk''\<rparr>,
          S3.client = (\<lambda>call :: (unit, unit) minio_call. ()),
          S3.makeOpts = MakeBucketOptions_zero, S3.getOpts = GetObjectOptions_zero,
          S3.removeOpts = RemoveObjectOptions_zero,
          S3.ctx = Live, S3.wg = 0\<rparr>
   \<and> snd (BucketClient_New (\<lambda>endpoint mo. Inr (\<lambda>call :: (unit, unit) minio_call. ()) :: unit + _)
          \<lparr>BucketClient_Options.LogName = ''svc'', BucketClient_Options.Endpoint = ''localhost:9000'',
           BucketClient_Options.Secure = False, BucketClient_Options.Region = ''auto'',
           BucketClient_Options.Bucket = ''data'', BucketClient_Options.AccessKey = ''ak'', BucketClient_Options.SecretKey = ''sk''\<rparr> [])
     = Inr \<lparr>BucketClient.logger = [(''svc'', ''S3'')],
          BucketClient.options =
            \<lparr>BucketClient_Options.LogName = ''svc'', BucketClient_Options.Endpoint = ''localhost:9000'',
             BucketClient_Options.Secure = False, BucketClient_Options.Region = ''auto'',
             BucketClient_Options.Bucket = ''data'', BucketClient_Options.AccessKey = ''ak'', BucketClient_Options.SecretKey = ''sk''\<rparr>,
          BucketClient.client = (\<lambda>call :: (unit, unit) minio_call. ()),
          BucketClient.makeOpts = MakeBucketOptions_zero, BucketClient.getOpts = GetObjectOptions_zero,
          BucketClient.removeOpts = RemoveObjectOptions_zero,
          BucketClient.ctxt = Live, BucketClient.wg = 0\<rparr>
   \<and> snd (PrefixClient_New (\<lambda>endpoint mo. Inr (\<lambda>call :: (unit, unit) minio_call. ()) :: unit + _)
          \<lparr>PrefixClient_Options.LogName = ''svc'', PrefixClient_Options.Endpoint = ''localhost:9000'',
           PrefixClient_Options.Secure = False, PrefixClient_Options.Region = ''auto'',
           PrefixClient_Options.Prefix = ''data'', PrefixClient_Options.AccessKey = ''ak'', PrefixClient_Options.SecretKey = ''sk''\<rparr> [])
     = Inr \<lparr>PrefixClient.logger = [(''svc'', ''S3'')],
          PrefixClient.options =
            \<lparr>PrefixClient_Options.LogName = ''svc'', PrefixClient_Options.Endpoint = ''localhost:9000'',
             PrefixClient_Options.Secure = False, PrefixClient_Options.Region = ''auto'',
             PrefixClient_Options.Prefix = ''data'', PrefixClient_Options.AccessKey = ''ak'', PrefixClient_Options.SecretKey = ''sk''\<rparr>,
          PrefixClient.client = (\<lambda>call :: (unit, unit) minio_call. ()),
          PrefixClient.makeOpts = MakeBucketOptions_zero, PrefixClient.getOpts = GetObjectOptions_zero,
          PrefixClient.putOpts =
            \<lparr>minio_PutObjectOptions.ContentType = ''application/octet-stream''\<rparr>,
          PrefixClient.removeOpts = RemoveObjectOptions_zero,
          PrefixClient.ctxt = Live, PrefixClient.wg = 0\<rparr>
   \<and> S3_Close
       \<lparr>S3.logger = [(''svc'', ''S3'')],
        S3.options =
          \<lparr>S3_Options.LogName = ''svc'', S3_Options.Disabled = False, S3_Options.Endpoint = ''localhost:9000'',
           S3_Options.Secure = False, S3_Options.Region = ''auto'',
           S3_Options.Bucket = ''data'', S3_Options.AccessKey = ''ak'', S3_Options.SecretKey = ''sk''\<rparr>,
        S3.client = (\<lambda>call :: (unit, unit) minio_call. ()),
        S3.makeOpts = MakeBucketOptions_zero, S3.getOpts = GetObjectOptions_zero,
        S3.removeOpts = RemoveObjectOptions_zero,
        S3.ctx = Live, S3.wg = 0\<rparr>
     = Some ([Log [(''svc'', ''S3'')] DebugLevel []],
             \<lparr>S3.logger = [(''svc'', ''S3'')],
              S3.options =
                \<lparr>S3_Options.LogName = ''svc'', S3_Options.Disabled = False, S3_Options.Endpoint = ''localhost:9000'',
                 S3_Options.Secure = False, S3_Options.Region = ''auto'',
                 S3_Options.Bucket = ''data'', S3_Options.AccessKey = ''ak'', S3_Options.SecretKey = ''sk''\<rparr>,
              S3.client = (\<lambda>call :: (unit, unit) minio_call. ()),
              S3.makeOpts = MakeBucketOptions_zero, S3.getOpts = GetObjectOptions_zero,
              S3.removeOpts = RemoveObjectOptions_zero,
              S3.ctx = Live, S3.wg = 0\<rparr>
               \<lparr>S3.ctx := Cancelled\<rparr>,
             (None :: unit error option))
   \<and> BucketClient_Close
       \<lparr>BucketClient.logger = [(''svc'', ''S3'')],
        BucketClient.options =
          \<lparr>BucketClient_Options.LogName = ''svc'', BucketClient_Options.Endpoint = ''localhost:9000'',
           BucketClient_Options.Secure = False, BucketClient_Options.Region = ''auto'',
           BucketClient_Options.Bucket = ''data'', BucketClient_Options.AccessKey = ''ak'', BucketClient_Options.SecretKey = ''sk''\<rparr>,
        BucketClient.client = (\<lambda>call :: (unit, unit) minio_call. ()),
        BucketClient.makeOpts = MakeBucketOptions_zero, BucketClient.getOpts = GetObjectOptions_zero,
        BucketClient.removeOpts = RemoveObjectOptions_zero,
        BucketClient.ctxt = Live, BucketClient.wg = 0\<rparr>
     = Some ([Log [(''svc'', ''S3'')] DebugLevel []],
             \<lparr>BucketClient.logger = [(''svc'', ''S3'')],
              BucketClient.options =
                \<lparr>BucketClient_Options.LogName = ''svc'', BucketClient_Options.Endpoint = ''localhost:9000'',
                 BucketClient_Options.Secure = False, BucketClient_Options.Region = ''auto'',
                 BucketClient_Options.Bucket = ''data'', BucketClient_Options.AccessKey = ''ak'', BucketClient_Options.SecretKey = ''sk''\<rparr>,
              BucketClient.client = (\<lambda>call :: (unit, unit) minio_call. ()),
              BucketClient.makeOpts = MakeBucketOptions_zero, BucketClient.getOpts = GetObjectOptions_zero,
              BucketClient.removeOpts = RemoveObjectOptions_zero,
              BucketClient.ctxt = Live, BucketClient.wg = 0\<rparr>
               \<lparr>BucketClient.ctxt := Cancelled\<rparr>,
             (None :: unit error option))
   \<and> PrefixClient_Close
       \<lparr>PrefixClient.logger = [(''svc'', ''S3'')],
        PrefixClient.options =
          \<lparr>PrefixClient_Options.LogName = ''svc'', PrefixClient_Options.Endpoint = ''localhost:9000'',
           PrefixClient_Options.Secure = False, PrefixClient_Options.Region = ''auto'',
           PrefixClient_Options.Prefix = ''data'', PrefixClient_Options.AccessKey = ''ak'', PrefixClient_Options.SecretKey = ''sk''\<rparr>,
        PrefixClient.client = (\<lambda>call :: (unit, unit) minio_call. ()),
        PrefixClient.makeOpts = MakeBucketOptions_zero, PrefixClient.getOpts = GetObjectOptions_zero,
        PrefixClient.putOpts =
          \<lparr>minio_PutObjectOptions.ContentType = ''application/octet-stream''\<rparr>,
        PrefixClient.removeOpts = RemoveObjectOptions_zero,
        PrefixClient.ctxt = Live, PrefixClient.wg = 0\<rparr>
     = Some ([Log [(''svc'', ''S3'')] DebugLevel []],
             \<lparr>PrefixClient.logger = [(''svc'', ''S3'')],
              PrefixClient.options =
                \<lparr>PrefixClient_Options.LogName = ''svc'', PrefixClient_Options.Endpoint = ''localhost:9000'',
                 PrefixClient_Options.Secure = False, PrefixClient_Options.Region = ''auto'',
                 PrefixClient_Options.Prefix = ''data'', PrefixClient_Options.AccessKey = ''ak'', PrefixClient_Options.SecretKey = ''sk''\<rparr>,
              PrefixClient.client = (\<lambda>call :: (unit, unit) minio_call. ()),
              PrefixClient.makeOpts = MakeBucketOptions_zero, PrefixClient.getOpts = GetObjectOptions_zero,
              PrefixClient.putOpts =
                \<lparr>minio_PutObjectOptions.ContentType = ''application/octet-stream''\<rparr>,
              PrefixClient.removeOpts = RemoveObjectOptions_zero,
              PrefixClient.ctxt = Live, PrefixClient.wg = 0\<rparr>
               \<lparr>PrefixClient.ctxt := Cancelled\<rparr>,
             (None :: unit error option))
   \<and> S3_Close
       (\<lparr>S3.logger = [(''svc'', ''S3'')],
        S3.options =
          \<lparr>S3_Options.LogName = ''svc'', S3_Options.Disabled = False, S3_Options.Endpoint = ''localhost:9000'',
           S3_Options.Secure = False, S3_Options.Region = ''auto'',
           S3_Options.Bucket = ''data'', S3_Options.AccessKey = ''ak'', S3_Options.SecretKey = ''sk''\<rparr>,
        S3.client = (\<lambda>call :: (unit, unit) minio_call. ()),
        S3.makeOpts = MakeBucketOptions_zero, S3.getOpts = GetObjectOptions_zero,
        S3.removeOpts = RemoveObjectOptions_zero,
        S3.ctx = Live, S3.wg = 0\<rparr>
          \<lparr>S3.wg := 1\<rparr>)
     = (None :: ((unit, unit) event list \<times> (unit, unit, unit) S3 \<times> unit error option) option)
   \<and> BucketClient_Close
       (\<lparr>BucketClient.logger = [(''svc'', ''S3'')],
        BucketClient.options =
          \<lparr>BucketClient_Options.LogName = ''svc'', BucketClient_Options.Endpoint = ''localhost:9000'',
           BucketClient_Options.Secure = False, BucketClient_Options.Region = ''auto'',
           BucketClient_Options.Bucket = ''data'', BucketClient_Options.AccessKey = ''ak'', BucketClient_Options.SecretKey = ''sk''\<rparr>,
        BucketClient.client = (\<lambda>call :: (unit, unit) minio_call. ()),
        BucketClient.makeOpts = MakeBucketOptions_zero, BucketClient.getOpts = GetObjectOptions_zero,
        BucketClient.removeOpts = RemoveObjectOptions_zero,
        BucketClient.ctxt = Live, BucketClient.wg = 0\<rparr>
          \<lparr>BucketClient.wg := 1\<rparr>)
     = (None :: ((unit, unit) event list \<times> (unit, unit, unit) BucketClient \<times> unit error option) option)
   \<and> PrefixClient_Close
       (\<lparr>PrefixClient.logger = [(''svc'', ''S3'')],
        PrefixClient.options =
          \<lparr>PrefixClient_Options.LogName = ''svc'', PrefixClient_Options.Endpoint = ''localhost:9000'',
           PrefixClient_Options.Secure = False, PrefixClient_Options.Region = ''auto'',
           PrefixClient_Options.Prefix = ''data'', PrefixClient_Options.AccessKey = ''ak'', PrefixClient_Options.SecretKey = ''sk''\<rparr>,
        PrefixClient.client = (\<lambda>call :: (unit, unit) minio_call. ()),
        PrefixClient.makeOpts = MakeBucketOptions_zero, PrefixClient.getOpts = GetObjectOptions_zero,
        PrefixClient.putOpts =
          \<lparr>minio_PutObjectOptions.ContentType = ''application/octet-stream''\<rparr>,
        PrefixClient.removeOpts = RemoveObjectOptions_zero,
        PrefixClient.ctxt = Live, PrefixClient.wg = 0\<rparr>
          \<lparr>PrefixClient.wg := 1\<rparr>)
     = (None :: ((unit, unit) event list \<times> (unit, unit, unit) PrefixClient \<times> unit error option) option)"
  (is "?built1 \<and> ?built2 \<and> ?built3 \<and> ?closed")
proof -
  have built1: ?built1
    by (simp add: S3_New_def Let_def With_Str_def WithCancel_Background_def)
  have built2: ?built2
    by (simp add: BucketClient_New_def Let_def With_Str_def WithCancel_Background_def)
  have built3: ?built3
    by (simp add: PrefixClient_New_def Let_def With_Str_def WithCancel_Background_def)
  have ?closed
    using Close_returns_nil [OF built1 built2 built3] by simp
  then show ?thesis
    using built1 built2 built3 by simp
qed

end
